theory Spec2Isabelle
  imports Main "HOL-Library.Word" "HOL-Library.AList"
begin

section \<open>JavaScript strings\<close>

text \<open>
  A JavaScript string is a sequence of UTF-16 code units. Literals of the build script
  are written as \<open>lit ''...''\<close>; the two code units of the grape emoji in the
  bookmarklet snippet are written numerically.
\<close>

type_synonym unit16 = "16 word"
type_synonym jsstring = "unit16 list"

definition lit :: "string \<Rightarrow> jsstring" where
  "lit s = map of_char s"

text \<open>\<open>Array.prototype.join\<close> on a list of strings.\<close>

fun join :: "jsstring \<Rightarrow> jsstring list \<Rightarrow> jsstring" where
  "join sep [] = []"
| "join sep [x] = x"
| "join sep (x # y # ys) = x @ sep @ join sep (y # ys)"

section \<open>Regular expressions of the build script\<close>

text \<open>
  The two regular expressions of \<open>build.js\<close> are concatenations of literals and of
  greedy repetitions of one character class, some of them capturing. \<open>Rep p lo hi\<close>
  repeats the class \<open>p\<close> at least \<open>lo\<close> and at most \<open>hi\<close> times (\<open>None\<close>: unbounded);
  \<open>Cap\<close> is the same repetition inside a capturing group.
\<close>

datatype atom =
    Lit jsstring
  | Rep "unit16 \<Rightarrow> bool" nat "nat option"
  | Cap "unit16 \<Rightarrow> bool" nat "nat option"

type_synonym regex = "atom list"

subsection \<open>Matching\<close>

text \<open>
  A greedy quantifier tries the longest repetition first and gives characters back one at
  a time: \<open>greedy f lo k\<close> is the first success of \<open>f\<close> among \<open>k, k - 1, ..., lo\<close>.
\<close>

fun greedy :: "(nat \<Rightarrow> 'a option) \<Rightarrow> nat \<Rightarrow> nat \<Rightarrow> 'a option" where
  "greedy f lo 0 = (if lo = 0 then f 0 else None)"
| "greedy f lo (Suc k) =
     (if Suc k < lo then None
      else case f (Suc k) of Some r \<Rightarrow> Some r | None \<Rightarrow> greedy f lo k)"

definition longest :: "(unit16 \<Rightarrow> bool) \<Rightarrow> nat option \<Rightarrow> jsstring \<Rightarrow> nat" where
  "longest p hi s =
     (let run = length (takeWhile p s)
      in case hi of None \<Rightarrow> run | Some h \<Rightarrow> min h run)"

text \<open>
  \<open>match_here r s\<close> matches the regular expression at the start of \<open>s\<close> with
  backtracking; it returns the captures in order and the number of code units matched.
\<close>

fun match_here :: "regex \<Rightarrow> jsstring \<Rightarrow> (jsstring list \<times> nat) option" where
  "match_here [] s = Some ([], 0)"
| "match_here (Lit l # r) s =
     (if take (length l) s = l
      then map_option (\<lambda>(caps, n). (caps, length l + n)) (match_here r (drop (length l) s))
      else None)"
| "match_here (Rep p lo hi # r) s =
     greedy (\<lambda>k. map_option (\<lambda>(caps, n). (caps, k + n)) (match_here r (drop k s)))
       lo (longest p hi s)"
| "match_here (Cap p lo hi # r) s =
     greedy (\<lambda>k. map_option (\<lambda>(caps, n). (take k s # caps, k + n)) (match_here r (drop k s)))
       lo (longest p hi s)"

text \<open>The number of capturing groups of a regular expression.\<close>

fun captures :: "regex \<Rightarrow> nat" where
  "captures [] = 0"
| "captures (Cap p lo hi # r) = Suc (captures r)"
| "captures (a # r) = captures r"

text \<open>
  \<open>String.prototype.matchAll\<close> with a global regular expression: the matches from left
  to right, each as the matched text followed by its captures. The search resumes where
  a match ended (one code unit further after an empty match); the second argument counts
  the code units still covered by the last match.
\<close>

fun matchAll_from :: "regex \<Rightarrow> nat \<Rightarrow> jsstring \<Rightarrow> jsstring list list" where
  "matchAll_from r k [] =
     (if k = 0 then (case match_here r [] of Some (caps, n) \<Rightarrow> [[] # caps] | None \<Rightarrow> [])
      else [])"
| "matchAll_from r (Suc k) (c # cs) = matchAll_from r k cs"
| "matchAll_from r 0 (c # cs) =
     (case match_here r (c # cs) of
        Some (caps, n) \<Rightarrow> (take n (c # cs) # caps) # matchAll_from r (n - 1) cs
      | None \<Rightarrow> matchAll_from r 0 cs)"

definition matchAll :: "regex \<Rightarrow> jsstring \<Rightarrow> jsstring list list" where
  "matchAll r s = matchAll_from r 0 s"

text \<open>
  \<open>String.prototype.replaceAll\<close> with a global regular expression and a replacer
  function, which receives the matched text and the captures.
\<close>

fun replaceAll_from :: "regex \<Rightarrow> (jsstring list \<Rightarrow> jsstring) \<Rightarrow> nat \<Rightarrow> jsstring \<Rightarrow> jsstring" where
  "replaceAll_from r f k [] =
     (if k = 0 then (case match_here r [] of Some (caps, n) \<Rightarrow> f ([] # caps) | None \<Rightarrow> [])
      else [])"
| "replaceAll_from r f (Suc k) (c # cs) = replaceAll_from r f k cs"
| "replaceAll_from r f 0 (c # cs) =
     (case match_here r (c # cs) of
        Some (caps, n) \<Rightarrow>
          f (take n (c # cs) # caps) @ (if n = 0 then [c] else []) @ replaceAll_from r f (n - 1) cs
      | None \<Rightarrow> c # replaceAll_from r f 0 cs)"

definition replaceAll :: "regex \<Rightarrow> (jsstring list \<Rightarrow> jsstring) \<Rightarrow> jsstring \<Rightarrow> jsstring" where
  "replaceAll r f s = replaceAll_from r f 0 s"

subsection \<open>Character classes\<close>

definition word_char :: "unit16 \<Rightarrow> bool" where
  \<comment> \<open>\<open>\w\<close>: \<open>[A-Za-z0-9_]\<close>\<close>
  "word_char c \<longleftrightarrow> (48 \<le> c \<and> c \<le> 57) \<or> (65 \<le> c \<and> c \<le> 90) \<or> c = 95 \<or> (97 \<le> c \<and> c \<le> 122)"

definition word_or_hyphen :: "unit16 \<Rightarrow> bool" where
  \<comment> \<open>\<open>[\w-]\<close>\<close>
  "word_or_hyphen c \<longleftrightarrow> word_char c \<or> c = 45"

definition not_semicolon_newline :: "unit16 \<Rightarrow> bool" where
  \<comment> \<open>\<open>[^;\n]\<close>\<close>
  "not_semicolon_newline c \<longleftrightarrow> c \<noteq> 59 \<and> c \<noteq> 10"

definition semicolon :: "unit16 \<Rightarrow> bool" where
  "semicolon c \<longleftrightarrow> c = 59"

definition dot :: "unit16 \<Rightarrow> bool" where
  \<comment> \<open>\<open>.\<close> without the \<open>s\<close> flag: anything but LF, CR, U+2028 and U+2029\<close>
  "dot c \<longleftrightarrow> c \<noteq> 10 \<and> c \<noteq> 13 \<and> c \<noteq> 0x2028 \<and> c \<noteq> 0x2029"

subsection \<open>Replacing a string by a string\<close>

text \<open>
  \<open>String.prototype.replace\<close> with a string pattern and a string replacement: only the
  first occurrence is replaced, and the replacement text is expanded first. With a string
  pattern there are no capture groups, so the patterns that expand are \<open>$$\<close> (a dollar
  sign), \<open>$&\<close> (the matched text), \<open>$`\<close> (the text before the match) and \<open>$'\<close> (the
  text after it); any other dollar sign stands for itself.
\<close>

fun find_first :: "jsstring \<Rightarrow> jsstring \<Rightarrow> (jsstring \<times> jsstring) option" where
  "find_first pat [] = (if pat = [] then Some ([], []) else None)"
| "find_first pat (c # cs) =
     (if take (length pat) (c # cs) = pat then Some ([], drop (length pat) (c # cs))
      else map_option (\<lambda>(preceding, following). (c # preceding, following))
             (find_first pat cs))"

fun get_substitution :: "jsstring \<Rightarrow> jsstring \<Rightarrow> jsstring \<Rightarrow> jsstring \<Rightarrow> jsstring" where
  "get_substitution matched preceding following [] = []"
| "get_substitution matched preceding following [c] = [c]"
| "get_substitution matched preceding following (c # d # r) =
     (if c = 36 \<and> d = 36 then 36 # get_substitution matched preceding following r
      else if c = 36 \<and> d = 38 then matched @ get_substitution matched preceding following r
      else if c = 36 \<and> d = 96 then preceding @ get_substitution matched preceding following r
      else if c = 36 \<and> d = 39 then following @ get_substitution matched preceding following r
      else c # get_substitution matched preceding following (d # r))"

definition String_replace :: "jsstring \<Rightarrow> jsstring \<Rightarrow> jsstring \<Rightarrow> jsstring" where
  "String_replace s pat replacement =
     (case find_first pat s of
        None \<Rightarrow> s
      | Some (preceding, following) \<Rightarrow>
          preceding @ get_substitution pat preceding following replacement @ following)"

section \<open>Values, errors and the environment\<close>

text \<open>
  The values YAML and JSON know. An object is the list of its own enumerable properties
  in enumeration order, with distinct keys; setting a property (\<open>AList.update\<close>) keeps
  the place of a key that exists and appends a new one.
\<close>

datatype jsval =
    JNull
  | JBool bool
  | JNum int
  | JStr jsstring
  | JArr "jsval list"
  | JObj "(jsstring \<times> jsval) list"

type_synonym obj = "(jsstring \<times> jsval) list"

text \<open>
  What can be thrown: \<open>new Error(message)\<close>, a \<open>TypeError\<close> of the engine (reading a
  property of \<open>null\<close>, calling what is not a function), and a value that a library throws
  or reports, known by its text.
\<close>

datatype exn = Error jsstring | TypeError | Thrown jsstring

type_synonym buffer = "8 word list"

text \<open>
  The parsed component file, as far as the script looks at it: for each of the four
  selectors, the \<open>innerHTML\<close> of the first matching element, or \<open>None\<close> where
  \<open>querySelector\<close> returns \<open>null\<close>.
\<close>

record document =
  config_el :: "jsstring option"
  style_el :: "jsstring option"
  script_el :: "jsstring option"
  main_el :: "jsstring option"

text \<open>The result objects of \<open>CleanCSS.minify\<close> and of \<open>UglifyJS.minify\<close>.\<close>

record css_output =
  styles :: jsstring
  errors :: "jsstring list"

record js_output =
  error :: "exn option"
  code :: jsstring

text \<open>
  Everything the script takes from outside: the file system it reads, the libraries it
  calls and the built-in functions whose result depends on Unicode tables. A library
  call that can throw returns a sum. \<open>YAML_parse\<close> gives the parsed value as the
  properties that the spread \<open>{...config}\<close> copies. \<open>settled\<close> is the time at which the
  promise of the i-th component settles: the components are processed concurrently.
  \<open>String_of\<close> is the text of a thrown value in \<open>"..." + e\<close>.
\<close>

record env =
  glob :: "jsstring \<Rightarrow> exn + jsstring list"
  readFile :: "jsstring \<Rightarrow> exn + buffer"
  readFile_utf8 :: "jsstring \<Rightarrow> exn + jsstring"
  settled :: "nat \<Rightarrow> nat"
  script_parent_dir :: jsstring
  path_join :: "jsstring \<Rightarrow> jsstring \<Rightarrow> jsstring"
  HTML_parse :: "buffer \<Rightarrow> document"
  YAML_parse :: "jsstring \<Rightarrow> exn + obj"
  CSS_minify :: "jsstring \<Rightarrow> css_output"
  JS_minify :: "jsstring \<Rightarrow> js_output"
  HTMLMinifier_minify :: "jsstring \<Rightarrow> exn + jsstring"
  JSON_stringify :: "obj \<Rightarrow> jsstring"
  toLowerCase :: "jsstring \<Rightarrow> jsstring"
  encodeURI :: "jsstring \<Rightarrow> exn + jsstring"
  String_of :: "exn \<Rightarrow> jsstring"

section \<open>The allow-list check\<close>

definition cssPropsRegex :: regex where
  \<comment> \<open>\<open>/([\w-]+):[^;\n]+;?/g\<close>\<close>
  "cssPropsRegex =
     [Cap word_or_hyphen 1 None, Lit (lit '':''), Rep not_semicolon_newline 1 None,
      Rep semicolon 0 (Some 1)]"

definition allowedCssProps :: "jsstring list" where
  "allowedCssProps = map lit
    [''align-content'', ''align-items'', ''align-self'', ''background'', ''border'',
     ''border-radius'', ''clear'', ''clip'', ''color'', ''column-gap'', ''cursor'',
     ''direction'', ''display'', ''flex'', ''flex-basis'', ''flex-direction'',
     ''flex-flow'', ''flex-grow'', ''flex-shrink'', ''flex-wrap'', ''float'', ''font'',
     ''gap'', ''grid'', ''height'', ''justify-content'', ''justify-items'',
     ''justify-self'', ''left'', ''line-height'', ''list-style'', ''margin'',
     ''max-height'', ''max-width'', ''min-height'', ''min-width'', ''order'', ''overflow'',
     ''overflow-x'', ''overflow-y'', ''padding'', ''position'', ''place-content'',
     ''place-items'', ''place-self'', ''right'', ''row-gap'', ''text-align'',
     ''table-layout'', ''text-decoration'', ''text-indent'', ''top'', ''vertical-align'',
     ''visibility'', ''white-space'', ''width'', ''z-index'', ''zoom'', ''grid-area'',
     ''grid-auto-columns'', ''grid-auto-flow'', ''grid-auto-rows'', ''grid-column'',
     ''grid-gap'', ''grid-row'', ''grid-template'', ''grid-template-areas'',
     ''grid-template-columns'', ''grid-template-rows'', ''grid-column-end'',
     ''grid-column-gap'', ''grid-column-start'', ''grid-row-end'', ''grid-row-gap'',
     ''grid-row-start'', ''background-attachment'', ''background-color'',
     ''background-image'', ''background-position'', ''background-repeat'',
     ''background-position-x'', ''background-position-y'', ''border-bottom'',
     ''border-collapse'', ''border-color'', ''border-left'', ''border-right'',
     ''border-spacing'', ''border-style'', ''border-top'', ''border-width'',
     ''border-bottom-color'', ''border-bottom-style'', ''border-bottom-width'',
     ''border-left-color'', ''border-left-style'', ''border-left-width'',
     ''border-right-color'', ''border-right-style'', ''border-right-width'',
     ''border-top-color'', ''border-top-style'', ''border-top-width'', ''font-family'',
     ''font-size'', ''font-stretch'', ''font-style'', ''font-variant'', ''font-width'',
     ''list-style-image'', ''list-style-position'', ''list-style-type'', ''margin-bottom'',
     ''margin-left'', ''margin-right'', ''margin-top'', ''margin-offset'',
     ''padding-bottom'', ''padding-left'', ''padding-right'', ''padding-top'']"

definition unsupported_message :: "jsstring \<Rightarrow> jsstring \<Rightarrow> jsstring" where
  "unsupported_message filename propName =
     [10, 10] @ lit ''Error in '' @ filename @ lit '':'' @ [10] @ lit ''CSS property '' @ [39]
     @ propName @ [39]
     @ lit '' is not supported by Canvas. It will be automatically stripped by their sanitizer.''
     @ [10]"

text \<open>
  The loop over the matches; \<open>propName\<close> is the second element of a match (the first
  capture). It stops at the first name that is not allowed.
\<close>

fun check_props :: "jsstring \<Rightarrow> jsstring list list \<Rightarrow> exn option" where
  "check_props filename [] = None"
| "check_props filename (m # ms) =
     (let propName = m ! 1
      in if propName \<notin> set allowedCssProps
         then Some (Error (unsupported_message filename propName))
         else check_props filename ms)"

section \<open>Processing one component\<close>

definition transitionRegex :: regex where
  \<comment> \<open>\<open>/class="(.*)transition(.*)"/g\<close>\<close>
  "transitionRegex =
     [Lit (lit ''class=\"''), Cap dot 0 None, Lit (lit ''transition''), Cap dot 0 None,
      Lit (lit ''\"'')]"

definition transformedHtml :: "jsstring \<Rightarrow> jsstring" where
  "transformedHtml originalHtml =
     replaceAll transitionRegex
       (\<lambda>m. lit ''class=\"'' @ m ! 1 @ lit ''thumbnail'' @ m ! 2 @ lit ''\"'')
       originalHtml"

text \<open>
  The body of \<open>processComponent\<close> after the file is read and parsed. The steps are in the
  order of the source: each \<open>throw\<close>, and each read of \<open>innerHTML\<close> of \<open>null\<close>, ends it.
\<close>

definition processRoot :: "env \<Rightarrow> jsstring \<Rightarrow> document \<Rightarrow> exn + obj" where
  "processRoot E filename root =
     (case config_el root of
        None \<Rightarrow> Inl TypeError
      | Some config_src \<Rightarrow>
     (case YAML_parse E config_src of
        Inl e \<Rightarrow> Inl e
      | Inr config \<Rightarrow>
     (let css = CSS_minify E (case style_el root of None \<Rightarrow> [] | Some s \<Rightarrow> s)
      in case check_props filename (matchAll cssPropsRegex (styles css)) of
        Some e \<Rightarrow> Inl e
      | None \<Rightarrow>
     (if length (errors css) > 1 then Inl (Thrown (errors css ! 0))
      else
     (let js = JS_minify E (case script_el root of None \<Rightarrow> [] | Some s \<Rightarrow> s)
      in case error js of
        Some e \<Rightarrow> Inl e
      | None \<Rightarrow>
     (case main_el root of
        None \<Rightarrow> Inl TypeError
      | Some originalHtml \<Rightarrow>
     (case HTMLMinifier_minify E (transformedHtml originalHtml) of
        Inl e \<Rightarrow> Inl e
      | Inr html \<Rightarrow>
          Inr (AList.update (lit ''html'') (JStr html)
                (AList.update (lit ''script'') (JStr (code js))
                  (AList.update (lit ''style'') (JStr (styles css)) config))))))))))"

definition processComponent :: "env \<Rightarrow> jsstring \<Rightarrow> exn + obj" where
  "processComponent E filename =
     (case readFile E filename of
        Inl e \<Rightarrow> Inl e
      | Inr file \<Rightarrow> processRoot E filename (HTML_parse E file))"

section \<open>The build\<close>

text \<open>
  \<open>Promise.all\<close>: the values in the order of the promises when all are fulfilled;
  otherwise the reason of the promise that is rejected first in time (the earlier
  promise when two settle together).
\<close>

fun rejected :: "nat \<Rightarrow> (exn + 'a) list \<Rightarrow> (nat \<times> exn) list" where
  "rejected i [] = []"
| "rejected i (Inl e # rs) = (i, e) # rejected (Suc i) rs"
| "rejected i (Inr v # rs) = rejected (Suc i) rs"

fun fulfilled :: "(exn + 'a) list \<Rightarrow> 'a list" where
  "fulfilled [] = []"
| "fulfilled (Inl e # rs) = fulfilled rs"
| "fulfilled (Inr v # rs) = v # fulfilled rs"

definition Promise_all :: "(nat \<Rightarrow> nat) \<Rightarrow> (exn + 'a) list \<Rightarrow> exn + 'a list" where
  "Promise_all t rs =
     (case rejected 0 rs of
        [] \<Rightarrow> Inr (fulfilled rs)
      | r # rest \<Rightarrow> Inl (snd (arg_min_list (\<lambda>(i, e). t i) (r # rest))))"

text \<open>
  One entry of the lookup structure. \<open>item.name.toLowerCase()\<close> is a \<open>TypeError\<close>
  unless the property \<open>name\<close> is a string.
\<close>

definition entry :: "env \<Rightarrow> obj \<Rightarrow> exn + jsstring" where
  "entry E item =
     (case map_of item (lit ''name'') of
        Some (JStr name) \<Rightarrow>
          Inr (lit ''\"'' @ toLowerCase E name @ lit ''\": '' @ JSON_stringify E item)
      | _ \<Rightarrow> Inl TypeError)"

text \<open>The name of a component, when it is a string.\<close>

definition name_of :: "obj \<Rightarrow> jsstring option" where
  "name_of item =
     (case map_of item (lit ''name'') of Some (JStr name) \<Rightarrow> Some name | _ \<Rightarrow> None)"

text \<open>\<open>Array.prototype.map\<close> with a callback that can throw: the first throw ends it.\<close>

fun map_throwing :: "('a \<Rightarrow> exn + 'b) \<Rightarrow> 'a list \<Rightarrow> exn + 'b list" where
  "map_throwing f [] = Inr []"
| "map_throwing f (x # xs) =
     (case f x of
        Inl e \<Rightarrow> Inl e
      | Inr y \<Rightarrow> (case map_throwing f xs of Inl e \<Rightarrow> Inl e | Inr ys \<Rightarrow> Inr (y # ys)))"

definition serializedComponents :: "env \<Rightarrow> obj list \<Rightarrow> exn + jsstring" where
  "serializedComponents E components =
     (case map_throwing (entry E) components of
        Inl e \<Rightarrow> Inl e
      | Inr entries \<Rightarrow> Inr (join (lit '','') entries))"

definition placeholder :: jsstring where
  "placeholder = lit ''/*${CANVAS_COMPONENTS}*/''"

definition fullJsStr :: "jsstring \<Rightarrow> jsstring \<Rightarrow> jsstring" where
  "fullJsStr canvasComponentsJs serialized =
     String_replace canvasComponentsJs placeholder serialized"

definition createBookmarklet :: "env \<Rightarrow> jsstring \<Rightarrow> exn + jsstring" where
  "createBookmarklet E js = encodeURI E (lit ''javascript:!function(){'' @ js @ lit ''}()'')"

definition grapes :: jsstring where
  \<comment> \<open>U+1F347, a surrogate pair\<close>
  "grapes = [0xD83C, 0xDF47]"

definition bookmarkletHtml :: "jsstring \<Rightarrow> jsstring" where
  "bookmarkletHtml bookmarkletJs =
     lit ''<a href=\"'' @ bookmarkletJs @ lit ''\" title=\"'' @ grapes
     @ lit '' Canvas Components\">'' @ grapes
     @ lit '' Canvas Components</a><p>Drag the link to the left into your bookmarks bar.</p>''"

text \<open>
  The calls the script makes to change the file system, in the order it makes them.
  Their own failures (a full disk, a missing permission) are not modelled: a call that
  is made is taken to succeed.
\<close>

datatype fs_call = Mkdir jsstring | WriteFile jsstring jsstring

definition distDirectory :: "env \<Rightarrow> jsstring" where
  "distDirectory E = path_join E (script_parent_dir E) (lit ''dist/'')"

text \<open>
  The \<open>try\<close> block around \<open>Promise.all(files.map(processComponent))\<close>: a rejection is
  thrown again as a new \<open>Error\<close>.
\<close>

definition load_components :: "env \<Rightarrow> jsstring list \<Rightarrow> exn + obj list" where
  "load_components E files =
     (case Promise_all (settled E) (map (processComponent E) files) of
        Inl e \<Rightarrow> Inl (Error (lit ''Error creating components: '' @ String_of E e))
      | Inr components \<Rightarrow> Inr components)"

text \<open>
  The callback of \<open>glob\<close> up to the assembled script (\<open>fullJsStr\<close> in the source); no
  file-system call is made before this point.
\<close>

definition assemble :: "env \<Rightarrow> exn + jsstring" where
  "assemble E =
     (case glob E (lit ''components/*.html'') of
        Inl err \<Rightarrow> Inl err
      | Inr files \<Rightarrow>
     (case readFile_utf8 E (lit ''canvascomponents.js'') of
        Inl e \<Rightarrow> Inl e
      | Inr canvasComponentsJs \<Rightarrow>
     (case load_components E files of
        Inl e \<Rightarrow> Inl e
      | Inr components \<Rightarrow>
     (case serializedComponents E components of
        Inl e \<Rightarrow> Inl e
      | Inr serialized \<Rightarrow> Inr (fullJsStr canvasComponentsJs serialized)))))"

text \<open>
  The whole callback: the file-system calls made, and the error thrown, if any.
\<close>

definition build :: "env \<Rightarrow> fs_call list \<times> exn option" where
  "build E =
     (case assemble E of
        Inl e \<Rightarrow> ([], Some e)
      | Inr full \<Rightarrow>
     (let minifiedJs = JS_minify E full
      in case error minifiedJs of
        Some e \<Rightarrow> ([Mkdir (distDirectory E)], Some e)
      | None \<Rightarrow>
     (case createBookmarklet E (code minifiedJs) of
        Inl e \<Rightarrow> ([Mkdir (distDirectory E)], Some e)
      | Inr bookmarkletJs \<Rightarrow>
          ([Mkdir (distDirectory E),
            WriteFile (path_join E (distDirectory E) (lit ''bookmarklet'')) bookmarkletJs,
            WriteFile (path_join E (distDirectory E) (lit ''bookmarklet.html''))
              (bookmarkletHtml bookmarkletJs),
            WriteFile (path_join E (distDirectory E) (lit ''canvascomponents.min.js''))
              (code minifiedJs)],
           None))))"

section \<open>An example environment\<close>

text \<open>
  A small environment on which the examples below are evaluated: one component file,
  \<open>components/card.html\<close>, with the contents
  \<^verbatim>\<open><config>name: Card</config><main><p>Hi</p></main>\<close>
  and a template with the placeholder. Its library functions agree with the real ones on
  the inputs of the examples: the minifiers return text that is already minimal as it
  is, \<open>toLowerCase\<close> and \<open>encodeURI\<close> are the built-in functions on ASCII text, and
  \<open>JSON.stringify\<close> is right for objects whose values are strings without control
  characters.
\<close>

definition ascii_toLowerCase :: "jsstring \<Rightarrow> jsstring" where
  "ascii_toLowerCase s = map (\<lambda>c. if 65 \<le> c \<and> c \<le> 90 then c + 32 else c) s"

definition json_quote :: "jsstring \<Rightarrow> jsstring" where
  "json_quote s =
     [34] @ concat (map (\<lambda>c. if c = 34 then [92, 34] else if c = 92 then [92, 92] else [c]) s)
     @ [34]"

definition demo_stringify :: "obj \<Rightarrow> jsstring" where
  "demo_stringify item =
     lit ''{''
     @ join (lit '','')
         (map (\<lambda>(k, v). json_quote k @ lit '':''
                 @ (case v of JStr s \<Rightarrow> json_quote s | _ \<Rightarrow> lit ''null'')) item)
     @ lit ''}''"

definition uri_unescaped :: "unit16 \<Rightarrow> bool" where
  \<comment> \<open>the characters \<open>encodeURI\<close> keeps: letters, digits and \<open>;/?:@&=+$,#-_.!~*'()\<close>\<close>
  "uri_unescaped c \<longleftrightarrow> word_char c \<or> c \<in> set (lit '';/?:@&=+$,#-.!~*()'') \<or> c = 39"

definition hex_digit :: "unit16 \<Rightarrow> unit16" where
  "hex_digit n = (if n < 10 then 48 + n else 55 + n)"

definition demo_encodeURI :: "jsstring \<Rightarrow> exn + jsstring" where
  "demo_encodeURI s =
     (if list_ex (\<lambda>c. 128 \<le> c) s then Inl (Thrown (lit ''URIError''))
      else Inr (concat (map (\<lambda>c. if uri_unescaped c then [c]
                                  else [37, hex_digit (c div 16), hex_digit (c mod 16)]) s)))"

definition demo_join :: "jsstring \<Rightarrow> jsstring \<Rightarrow> jsstring" where
  "demo_join a b = (if a \<noteq> [] \<and> last a = 47 then a @ b else a @ [47] @ b)"

definition card_document :: document where
  "card_document =
     \<lparr>config_el = Some (lit ''name: Card''), style_el = None, script_el = None,
      main_el = Some (lit ''<p>Hi</p>'')\<rparr>"

definition demo_env :: env where
  "demo_env =
     \<lparr>glob = (\<lambda>pattern. Inr [lit ''components/card.html'']),
      readFile = (\<lambda>filename. Inr []),
      readFile_utf8 = (\<lambda>filename. Inr (lit ''var c={/*${CANVAS_COMPONENTS}*/};'')),
      settled = (\<lambda>i. i),
      script_parent_dir = lit ''/repo'',
      path_join = demo_join,
      HTML_parse = (\<lambda>file. card_document),
      YAML_parse = (\<lambda>src.
        if src = lit ''name: Card'' then Inr [(lit ''name'', JStr (lit ''Card''))]
        else if src = lit ''name: Card'' @ [10] @ lit ''style: red''
        then Inr [(lit ''name'', JStr (lit ''Card'')), (lit ''style'', JStr (lit ''red''))]
        else Inl (Thrown (lit ''YAMLParseError''))),
      CSS_minify = (\<lambda>src. \<lparr>styles = src, errors = []\<rparr>),
      JS_minify = (\<lambda>src. \<lparr>error = None, code = src\<rparr>),
      HTMLMinifier_minify = (\<lambda>src. Inr src),
      JSON_stringify = demo_stringify,
      toLowerCase = ascii_toLowerCase,
      encodeURI = demo_encodeURI,
      String_of = (\<lambda>e. case e of Error m \<Rightarrow> lit ''Error: '' @ m
                            | TypeError \<Rightarrow> lit ''TypeError'' | Thrown m \<Rightarrow> m)\<rparr>"

definition card_component :: obj where
  "card_component =
     [(lit ''name'', JStr (lit ''Card'')), (lit ''style'', JStr []), (lit ''script'', JStr []),
      (lit ''html'', JStr (lit ''<p>Hi</p>''))]"

text \<open>The same environment with a minifier that rejects every script but the empty one.\<close>

definition rejecting_env :: env where
  "rejecting_env =
     demo_env\<lparr>JS_minify := (\<lambda>src.
       if src = [] then \<lparr>error = None, code = []\<rparr>
       else \<lparr>error = Some (Thrown (lit ''SyntaxError'')), code = []\<rparr>)\<rparr>"

section \<open>The specification's wording, for comparison\<close>

text \<open>
  The lookup structure as the specification words it: each key is the component's name
  from its metadata.
\<close>

definition spec_serializedComponents :: "env \<Rightarrow> obj list \<Rightarrow> jsstring" where
  "spec_serializedComponents E components =
     join (lit '','')
       (map (\<lambda>item. lit ''\"'' @ the (name_of item) @ lit ''\": '' @ JSON_stringify E item)
          components)"

text \<open>
  The assembled script as the specification words it: the template with the placeholder
  replaced by the serialized components, as they are.
\<close>

definition spec_fullJsStr :: "jsstring \<Rightarrow> jsstring \<Rightarrow> jsstring" where
  "spec_fullJsStr canvasComponentsJs serialized =
     (case find_first placeholder canvasComponentsJs of
        None \<Rightarrow> canvasComponentsJs
      | Some (preceding, following) \<Rightarrow> preceding @ serialized @ following)"

section \<open>Facts about the example environment\<close>

lemma processRoot_card:
  "processRoot demo_env filename card_document = Inr card_component"
  by (simp add: processRoot_def demo_env_def card_document_def card_component_def matchAll_def
      cssPropsRegex_def transformedHtml_def replaceAll_def transitionRegex_def lit_def
      longest_def dot_def)

lemma processComponent_demo:
  "processComponent demo_env filename = Inr card_component"
proof -
  have "readFile demo_env filename = Inr []" and "HTML_parse demo_env [] = card_document"
    by (simp_all add: demo_env_def)
  then show ?thesis
    by (simp add: processComponent_def processRoot_card)
qed

lemma serialized_card:
  "serializedComponents demo_env [card_component] =
   Inr (lit ''\"card\": {\"name\":\"Card\",\"style\":\"\",\"script\":\"\",\"html\":\"<p>Hi</p>\"}'')"
  by (simp add: serializedComponents_def entry_def demo_env_def demo_stringify_def json_quote_def
      ascii_toLowerCase_def card_component_def lit_def)

lemma fullJsStr_card:
  "fullJsStr (lit ''var c={/*${CANVAS_COMPONENTS}*/};'')
     (lit ''\"card\": {\"name\":\"Card\",\"style\":\"\",\"script\":\"\",\"html\":\"<p>Hi</p>\"}'')
   = lit ''var c={\"card\": {\"name\":\"Card\",\"style\":\"\",\"script\":\"\",\"html\":\"<p>Hi</p>\"}};''"
  by (simp add: fullJsStr_def String_replace_def placeholder_def lit_def)

lemma assemble_demo:
  "assemble demo_env =
     Inr (lit ''var c={\"card\": {\"name\":\"Card\",\"style\":\"\",\"script\":\"\",\"html\":\"<p>Hi</p>\"}};'')"
proof -
  have g: "glob demo_env (lit ''components/*.html'') = Inr [lit ''components/card.html'']"
    and r: "readFile_utf8 demo_env (lit ''canvascomponents.js'')
              = Inr (lit ''var c={/*${CANVAS_COMPONENTS}*/};'')"
    by (simp_all add: demo_env_def)
  have l: "load_components demo_env [lit ''components/card.html''] = Inr [card_component]"
    by (simp add: load_components_def Promise_all_def processComponent_demo)
  show ?thesis
    by (simp add: assemble_def g r l serialized_card fullJsStr_card)
qed

lemma build_demo_ok: "snd (build demo_env) = None"
proof -
  have "error (JS_minify demo_env src) = None" for src
    by (simp add: demo_env_def)
  moreover have "\<exists>uri. createBookmarklet demo_env (code (JS_minify demo_env
      (lit ''var c={\"card\": {\"name\":\"Card\",\"style\":\"\",\"script\":\"\",\"html\":\"<p>Hi</p>\"}};'')))
      = Inr uri"
    by (simp add: createBookmarklet_def demo_env_def demo_encodeURI_def lit_def)
  ultimately show ?thesis
    by (auto simp: build_def assemble_demo Let_def)
qed

lemma assemble_rejecting:
  "assemble rejecting_env =
     Inr (lit ''var c={\"card\": {\"name\":\"Card\",\"style\":\"\",\"script\":\"\",\"html\":\"<p>Hi</p>\"}};'')"
proof -
  have g: "glob rejecting_env (lit ''components/*.html'') = Inr [lit ''components/card.html'']"
    and r: "readFile_utf8 rejecting_env (lit ''canvascomponents.js'')
              = Inr (lit ''var c={/*${CANVAS_COMPONENTS}*/};'')"
    by (simp_all add: demo_env_def rejecting_env_def)
  have p: "processComponent rejecting_env filename = Inr card_component" for filename
    by (simp add: processComponent_def processRoot_def rejecting_env_def demo_env_def
      card_document_def card_component_def matchAll_def
      cssPropsRegex_def transformedHtml_def replaceAll_def transitionRegex_def lit_def
      longest_def dot_def)
  have l: "load_components rejecting_env [lit ''components/card.html''] = Inr [card_component]"
    by (simp add: load_components_def Promise_all_def p)
  have s: "serializedComponents rejecting_env [card_component] =
   Inr (lit ''\"card\": {\"name\":\"Card\",\"style\":\"\",\"script\":\"\",\"html\":\"<p>Hi</p>\"}'')"
    by (simp add: serializedComponents_def entry_def rejecting_env_def demo_env_def
        demo_stringify_def json_quote_def ascii_toLowerCase_def card_component_def lit_def)
  show ?thesis
    by (simp add: assemble_def g r l s fullJsStr_card)
qed

section \<open>Matches and their captures\<close>

text \<open>
  A match has one element for the matched text and one for each capturing group, so the
  reads \<open>m ! 1\<close> and \<open>m ! 2\<close> of the model are in range, as the destructuring of the
  source is.
\<close>

lemma greedy_Some:
  "greedy f lo k = Some x \<Longrightarrow> \<exists>j\<le>k. lo \<le> j \<and> f j = Some x"
proof (induction k)
  case 0
  then show ?case by (auto split: if_splits)
next
  case (Suc k)
  show ?case
  proof (cases "f (Suc k)")
    case None
    with Suc.prems have "greedy f lo k = Some x" by (auto split: if_splits)
    from Suc.IH [OF this] show ?thesis by (auto intro: le_SucI)
  next
    case (Some y)
    with Suc.prems show ?thesis by (auto split: if_splits)
  qed
qed

lemma match_here_captures:
  "match_here r s = Some (caps, n) \<Longrightarrow> length caps = captures r"
proof (induction r arbitrary: s caps n)
  case Nil
  then show ?case by simp
next
  case (Cons a r)
  show ?case
  proof (cases a)
    case (Lit l)
    with Cons.prems Cons.IH show ?thesis by (auto split: if_splits)
  next
    case (Rep p lo hi)
    with Cons.prems have "greedy
        (\<lambda>k. map_option (\<lambda>(caps, n). (caps, k + n)) (match_here r (drop k s)))
        lo (longest p hi s) = Some (caps, n)"
      by simp
    from greedy_Some [OF this] obtain j where
      "map_option (\<lambda>(caps, n). (caps, j + n)) (match_here r (drop j s)) = Some (caps, n)"
      by blast
    with Cons.IH Rep show ?thesis by auto
  next
    case (Cap p lo hi)
    with Cons.prems have "greedy
        (\<lambda>k. map_option (\<lambda>(caps, n). (take k s # caps, k + n)) (match_here r (drop k s)))
        lo (longest p hi s) = Some (caps, n)"
      by simp
    from greedy_Some [OF this] obtain j where
      "map_option (\<lambda>(caps, n). (take j s # caps, j + n)) (match_here r (drop j s))
         = Some (caps, n)"
      by blast
    with Cons.IH Cap show ?thesis by auto
  qed
qed

lemma matchAll_from_length:
  "list_all (\<lambda>m. length m = Suc (captures r)) (matchAll_from r k s)"
proof (induction r k s rule: matchAll_from.induct)
  case (1 r k)
  show ?case
    by (cases "match_here r []") (auto dest: match_here_captures)
next
  case (2 r k c cs)
  then show ?case by simp
next
  case (3 r c cs)
  then show ?case
    by (cases "match_here r (c # cs)") (auto dest: match_here_captures)
qed

lemma cssProps_match_length:
  "list_all (\<lambda>m. length m = 2) (matchAll cssPropsRegex s)"
  using matchAll_from_length [of cssPropsRegex 0 s]
  by (simp add: matchAll_def cssPropsRegex_def numeral_2_eq_2)

lemma replaceAll_from_cong:
  "(\<And>m. length m = Suc (captures r) \<Longrightarrow> f m = g m) \<Longrightarrow>
     replaceAll_from r f k s = replaceAll_from r g k s"
proof (induction r f k s rule: replaceAll_from.induct)
  case (1 r f k)
  then show ?case by (auto split: option.splits dest: match_here_captures)
next
  case (2 r f k c cs)
  then show ?case by simp
next
  case (3 r f c cs)
  show ?case
  proof (cases "match_here r (c # cs)")
    case None
    with 3 show ?thesis by simp
  next
    case (Some a)
    obtain caps n where a: "a = (caps, n)" by (cases a)
    with Some have "length caps = captures r" by (auto dest: match_here_captures)
    with 3 Some a show ?thesis by simp
  qed
qed

lemma transformedHtml_captures:
  "transformedHtml originalHtml =
     replaceAll transitionRegex
       (\<lambda>m. case m of
               [whole, cg1, cg2] \<Rightarrow> lit ''class=\"'' @ cg1 @ lit ''thumbnail'' @ cg2 @ lit ''\"''
             | _ \<Rightarrow> [])
       originalHtml"
proof -
  have c: "captures transitionRegex = Suc (Suc 0)"
    by (simp add: transitionRegex_def)
  have "lit ''class=\"'' @ m ! 1 @ lit ''thumbnail'' @ m ! 2 @ lit ''\"'' =
        (case m of
           [whole, cg1, cg2] \<Rightarrow> lit ''class=\"'' @ cg1 @ lit ''thumbnail'' @ cg2 @ lit ''\"''
         | _ \<Rightarrow> [])"
    if "length m = Suc (captures transitionRegex)" for m
  proof -
    from that c obtain whole cg1 cg2 where "m = [whole, cg1, cg2]"
      by (auto simp: length_Suc_conv)
    then show ?thesis by simp
  qed
  then show ?thesis
    unfolding transformedHtml_def replaceAll_def
    by (rule replaceAll_from_cong)
qed

section \<open>What the allow-list check checks\<close>

text \<open>
  What the loop decides: it passes exactly when the first capture of every match is an
  allowed name.
\<close>

lemma check_props_None:
  "check_props filename ms = None \<longleftrightarrow> list_all (\<lambda>m. m ! 1 \<in> set allowedCssProps) ms"
  by (induction ms) (auto simp: Let_def)

lemma check_props_Some:
  "check_props filename ms = Some e \<Longrightarrow>
     \<exists>m \<in> set ms. m ! 1 \<notin> set allowedCssProps
                \<and> e = Error (unsupported_message filename (m ! 1))"
  by (induction ms) (auto simp: Let_def split: if_splits)

lemma matches_two_rules:
  "matchAll cssPropsRegex (lit ''.a{color:red}.b{transform:none}'')
     = [[lit ''color:red}.b{transform:none}'', lit ''color'']]"
  by (simp add: matchAll_def cssPropsRegex_def lit_def longest_def word_or_hyphen_def
      word_char_def not_semicolon_newline_def semicolon_def)

lemma matches_pseudo_class:
  "matchAll cssPropsRegex (lit ''a:hover{color:red}'')
     = [[lit ''a:hover{color:red}'', lit ''a'']]"
  by (simp add: matchAll_def cssPropsRegex_def lit_def longest_def word_or_hyphen_def
      word_char_def not_semicolon_newline_def semicolon_def)

lemma allowed_examples:
  "lit ''color'' \<in> set allowedCssProps" "lit ''transform'' \<notin> set allowedCssProps"
  "lit ''a'' \<notin> set allowedCssProps"
  by (simp_all add: allowedCssProps_def lit_def)

text \<open>
  Claim C1 says that a declaration with a property name outside the allow-list makes
  \<open>processComponent\<close> throw, and that allowed names raise nothing. The code does neither
  in general. The value part \<open>[^;\n]+\<close> of the regular expression runs over \<open>}\<close> and
  \<open>{\<close>, so after the last declaration of a rule, which minified CSS ends without a
  semicolon, the match swallows the first declaration of the next rule: in
  \<open>.a{color:red}.b{transform:none}\<close> only \<open>color\<close> is checked and the component is built,
  although \<open>transform\<close> is not allowed. And the name part matches any word before a
  colon: in \<open>a:hover{color:red}\<close> the selector \<open>a\<close> is taken for a property and the
  component is refused, although its only property, \<open>color\<close>, is allowed.
\<close>

theorem allowlist_check_misses:
  "processRoot demo_env filename
      (card_document\<lparr>style_el := Some (lit ''.a{color:red}.b{transform:none}'')\<rparr>)
     = Inr [(lit ''name'', JStr (lit ''Card'')),
            (lit ''style'', JStr (lit ''.a{color:red}.b{transform:none}'')),
            (lit ''script'', JStr []), (lit ''html'', JStr (lit ''<p>Hi</p>''))]
   \<and> lit ''transform'' \<notin> set allowedCssProps
   \<and> processRoot demo_env filename
        (card_document\<lparr>style_el := Some (lit ''a:hover{color:red}'')\<rparr>)
     = Inl (Error (unsupported_message filename (lit ''a'')))
   \<and> lit ''color'' \<in> set allowedCssProps"
proof -
  have c: "CSS_minify demo_env src = \<lparr>styles = src, errors = []\<rparr>" for src
    by (simp add: demo_env_def)
  have y: "YAML_parse demo_env (lit ''name: Card'') = Inr [(lit ''name'', JStr (lit ''Card''))]"
    by (simp add: demo_env_def)
  have j: "JS_minify demo_env [] = \<lparr>error = None, code = []\<rparr>"
    by (simp add: demo_env_def)
  have h: "HTMLMinifier_minify demo_env (transformedHtml (lit ''<p>Hi</p>''))
             = Inr (lit ''<p>Hi</p>'')"
    by (simp add: demo_env_def transformedHtml_def replaceAll_def transitionRegex_def lit_def
        longest_def dot_def)
  have 1: "processRoot demo_env filename
      (card_document\<lparr>style_el := Some (lit ''.a{color:red}.b{transform:none}'')\<rparr>)
     = Inr [(lit ''name'', JStr (lit ''Card'')),
            (lit ''style'', JStr (lit ''.a{color:red}.b{transform:none}'')),
            (lit ''script'', JStr []), (lit ''html'', JStr (lit ''<p>Hi</p>''))]"
    by (simp add: processRoot_def card_document_def c y j h matches_two_rules allowed_examples)
       (simp add: lit_def)
  have 2: "processRoot demo_env filename
        (card_document\<lparr>style_el := Some (lit ''a:hover{color:red}'')\<rparr>)
     = Inl (Error (unsupported_message filename (lit ''a'')))"
    by (simp add: processRoot_def card_document_def c y matches_pseudo_class allowed_examples)
  from 1 2 allowed_examples show ?thesis by simp
qed

section \<open>Errors of the style minifier\<close>

text \<open>
  Claim C2 says that one or more errors of the CSS minifier stop the component with the
  first of them. The test of the code is \<open>css.errors.length > 1\<close>: with two errors the
  first is thrown, with exactly one error nothing is thrown and the component is built.
  The example is a style element with an \<open>@import\<close> of a file that does not exist, for
  which the minifier returns no styles and one error.
\<close>

theorem single_css_error_ignored:
  "processRoot
      (demo_env\<lparr>CSS_minify := (\<lambda>src. \<lparr>styles = [], errors = [e1]\<rparr>)\<rparr>) filename
      (card_document\<lparr>style_el := Some (lit ''@import url(missing.css);'')\<rparr>)
     = Inr card_component
   \<and> processRoot
      (demo_env\<lparr>CSS_minify := (\<lambda>src. \<lparr>styles = [], errors = [e1, e2]\<rparr>)\<rparr>) filename
      (card_document\<lparr>style_el := Some (lit ''@import url(missing.css);'')\<rparr>)
     = Inl (Thrown e1)"
  by (simp add: processRoot_def demo_env_def card_document_def card_component_def matchAll_def
      cssPropsRegex_def transformedHtml_def replaceAll_def transitionRegex_def lit_def
      longest_def dot_def)

text \<open>
  Whatever stops one component stops the build before any file-system call: the build
  ends with an \<open>Error\<close> made from the reason of the component rejected first.
\<close>

lemma rejected_nonempty: "Inl e \<in> set rs \<Longrightarrow> rejected i rs \<noteq> []"
proof (induction rs arbitrary: i)
  case Nil
  then show ?case by simp
next
  case (Cons a rs)
  then show ?case by (cases a) auto
qed

lemma component_error_stops_build:
  assumes "glob E (lit ''components/*.html'') = Inr files"
    and "readFile_utf8 E (lit ''canvascomponents.js'') = Inr canvasComponentsJs"
    and "filename \<in> set files" and "processComponent E filename = Inl e"
  shows "\<exists>e'. build E = ([], Some (Error (lit ''Error creating components: '' @ String_of E e')))"
proof -
  from assms(3,4) have "Inl e \<in> set (map (processComponent E) files)"
    by (metis imageI list.set_map)
  then have "rejected 0 (map (processComponent E) files) \<noteq> []"
    by (rule rejected_nonempty)
  then have "\<exists>e'. Promise_all (settled E) (map (processComponent E) files) = Inl e'"
    by (cases "rejected 0 (map (processComponent E) files)") (simp_all add: Promise_all_def)
  then obtain e' where "Promise_all (settled E) (map (processComponent E) files) = Inl e'"
    by blast
  then have "load_components E files
      = Inl (Error (lit ''Error creating components: '' @ String_of E e'))"
    by (simp add: load_components_def)
  with assms(1,2) have "build E
      = ([], Some (Error (lit ''Error creating components: '' @ String_of E e')))"
    by (simp add: build_def assemble_def)
  then show ?thesis ..
qed

section \<open>Markup without the text \<open>transition\<close>\<close>

text \<open>
  \<open>find_first pat s = None\<close> says that \<open>pat\<close> does not occur in \<open>s\<close>. A match of the
  class rewrite contains the text \<open>transition\<close>, so markup in which it does not occur
  has no match and the rewrite leaves it as it is.
\<close>

lemma find_first_Some: "find_first pat s = Some (a, b) \<Longrightarrow> s = a @ pat @ b"
proof (induction s arbitrary: a)
  case Nil
  then show ?case by (auto split: if_splits)
next
  case (Cons c cs)
  show ?case
  proof (cases "take (length pat) (c # cs) = pat")
    case True
    with Cons.prems have "a = []" and "b = drop (length pat) (c # cs)" by auto
    with True show ?thesis by (metis append_Nil append_take_drop_id)
  next
    case False
    with Cons.prems obtain a' where "find_first pat cs = Some (a', b)" and "a = c # a'"
      by auto
    with Cons.IH show ?thesis by simp
  qed
qed

lemma find_first_None: "find_first pat s = None \<Longrightarrow> s \<noteq> x @ pat @ y"
proof (induction s arbitrary: x)
  case Nil
  then show ?case by (auto split: if_splits)
next
  case (Cons c cs)
  from Cons.prems have n: "take (length pat) (c # cs) \<noteq> pat" and r: "find_first pat cs = None"
    by (auto split: if_splits)
  show ?case
  proof (cases x)
    case Nil
    with n show ?thesis by auto
  next
    case (Cons d x')
    with Cons.IH [OF r, of x'] show ?thesis by auto
  qed
qed




lemma find_first_None_iff:
  "find_first pat s = None \<longleftrightarrow> (\<forall>x y. s \<noteq> x @ pat @ y)"
proof
  assume "find_first pat s = None"
  then show "\<forall>x y. s \<noteq> x @ pat @ y" by (blast dest: find_first_None)
next
  assume a: "\<forall>x y. s \<noteq> x @ pat @ y"
  show "find_first pat s = None"
  proof (cases "find_first pat s")
    case None
    then show ?thesis .
  next
    case (Some ab)
    obtain a' b' where "ab = (a', b')" by (cases ab)
    with Some have "s = a' @ pat @ b'" by (simp add: find_first_Some)
    with a show ?thesis by blast
  qed
qed




section \<open>The record of a component\<close>






text \<open>
  Claim C9. A component without a style element, or without a script element, is
  processed exactly as one whose element is there and empty, so the absence is no error
  (the example component has neither and is built); without a config element the
  processing fails with a \<open>TypeError\<close>, and without a main element it fails too.
  \<open>processComponent\<close> applies \<open>processRoot\<close> to the parsed file.
\<close>

theorem missing_sections:
  "processRoot E filename (root\<lparr>style_el := None\<rparr>)
     = processRoot E filename (root\<lparr>style_el := Some []\<rparr>)
   \<and> processRoot E filename (root\<lparr>script_el := None\<rparr>)
     = processRoot E filename (root\<lparr>script_el := Some []\<rparr>)
   \<and> processRoot E filename (root\<lparr>config_el := None\<rparr>) = Inl TypeError
   \<and> isl (processRoot E filename (root\<lparr>main_el := None\<rparr>))
   \<and> style_el card_document = None \<and> script_el card_document = None
   \<and> processRoot demo_env filename card_document = Inr card_component"
  using processRoot_card [of filename]
  by (auto simp: processRoot_def Let_def card_document_def split: option.splits sum.splits)

text \<open>
  Claim C10 says that every class attribute with \<open>transition\<close> in its value has an
  occurrence replaced, and that markup outside such attributes is unchanged. Both
  \<open>(.*)\<close> of the regular expression are greedy and run to the end of the line, so one
  match spans from the first \<open>class="\<close> of a line to its last double quote and rewrites only
  the last \<open>transition\<close> before that quote. With two elements on a line the class of
  the first stays \<open>transition\<close>; a \<open>transition\<close> in a later attribute of the line is
  rewritten although it is no class. A single class attribute is rewritten as meant.
\<close>

theorem transition_rewrite_greedy:
  "transformedHtml (lit ''<a class=\"transition\"></a><b class=\"transition\"></b>'')
     = lit ''<a class=\"transition\"></a><b class=\"thumbnail\"></b>''
   \<and> transformedHtml (lit ''<a class=\"x\" title=\"transition\"></a>'')
     = lit ''<a class=\"x\" title=\"thumbnail\"></a>''
   \<and> transformedHtml (lit ''<a class=\"a transition b\">t</a>'')
     = lit ''<a class=\"a thumbnail b\">t</a>''"
  by (simp add: transformedHtml_def replaceAll_def transitionRegex_def lit_def longest_def dot_def)

section \<open>The lookup structure\<close>

lemma rejected_Nil: "rejected i rs = [] \<Longrightarrow> map Inr (fulfilled rs) = rs"
proof (induction rs arbitrary: i)
  case Nil
  then show ?case by simp
next
  case (Cons a rs)
  then show ?case by (cases a) auto
qed

lemma Promise_all_Inr:
  assumes "Promise_all t rs = Inr vs"
  shows "rs = map Inr vs"
proof -
  from assms have "rejected 0 rs = []" and "vs = fulfilled rs"
    by (auto simp: Promise_all_def split: list.splits)
  then show ?thesis by (simp add: rejected_Nil)
qed

lemma map_throwing_Inr: "map_throwing f xs = Inr ys \<Longrightarrow> map f xs = map Inr ys"
  by (induction xs arbitrary: ys) (auto split: sum.splits)

lemma entry_Inr:
  assumes "entry E item = Inr s"
  shows "name_of item \<noteq> None
       \<and> s = lit ''\"'' @ toLowerCase E (the (name_of item)) @ lit ''\": '' @ JSON_stringify E item"
  using assms
  by (auto simp: entry_def name_of_def split: option.splits jsval.splits)

lemma entries_Inr:
  "map (entry E) items = map Inr ss \<Longrightarrow>
     list_all (\<lambda>item. name_of item \<noteq> None) items
   \<and> ss = map (\<lambda>item. lit ''\"'' @ toLowerCase E (the (name_of item)) @ lit ''\": ''
                  @ JSON_stringify E item) items"
proof (induction items arbitrary: ss)
  case Nil
  then show ?case by simp
next
  case (Cons item items)
  then obtain s ss' where ss: "ss = s # ss'" and s: "entry E item = Inr s"
    and r: "map (entry E) items = map Inr ss'"
    by (cases ss) auto
  from entry_Inr [OF s] Cons.IH [OF r] ss show ?case by simp
qed

text \<open>
  Claim C5, amended. When the components are loaded and serialized, the i-th component
  is the record of the i-th file found, every component has a string as its name, and the
  lookup structure is the comma-separated list, in that order, of one entry per
  component: the name in lower case between double quotes, a colon and a space, and the
  JSON text of the record.
\<close>

theorem serialized_lookup_structure:
  assumes "load_components E files = Inr components"
    and "serializedComponents E components = Inr serialized"
  shows "map (processComponent E) files = map Inr components
       \<and> list_all (\<lambda>item. name_of item \<noteq> None) components
       \<and> serialized =
           join (lit '','')
             (map (\<lambda>item. lit ''\"'' @ toLowerCase E (the (name_of item)) @ lit ''\": ''
                     @ JSON_stringify E item) components)"
proof -
  from assms(1) have "Promise_all (settled E) (map (processComponent E) files) = Inr components"
    by (simp add: load_components_def split: sum.splits)
  then have 1: "map (processComponent E) files = map Inr components"
    by (rule Promise_all_Inr)
  from assms(2) obtain entries where e: "map_throwing (entry E) components = Inr entries"
    and j: "serialized = join (lit '','') entries"
    by (auto simp: serializedComponents_def split: sum.splits)
  from entries_Inr [OF map_throwing_Inr [OF e]] j 1 show ?thesis by simp
qed

theorem serialized_lookup_structure_witness:
  "load_components demo_env [lit ''components/card.html''] = Inr [card_component]
   \<and> serializedComponents demo_env [card_component] =
       Inr (lit ''\"card\": {\"name\":\"Card\",\"style\":\"\",\"script\":\"\",\"html\":\"<p>Hi</p>\"}'')
   \<and> map (processComponent demo_env) [lit ''components/card.html''] = map Inr [card_component]
   \<and> list_all (\<lambda>item. name_of item \<noteq> None) [card_component]
   \<and> lit ''\"card\": {\"name\":\"Card\",\"style\":\"\",\"script\":\"\",\"html\":\"<p>Hi</p>\"}'' =
           join (lit '','')
             (map (\<lambda>item. lit ''\"'' @ toLowerCase demo_env (the (name_of item)) @ lit ''\": ''
                     @ JSON_stringify demo_env item) [card_component])"
proof -
  have l: "load_components demo_env [lit ''components/card.html''] = Inr [card_component]"
    by (simp add: load_components_def Promise_all_def processComponent_demo)
  from serialized_lookup_structure [OF l serialized_card] l serialized_card
  show ?thesis by simp
qed

text \<open>
  Claim C5 as it is written, with the component's name as the key, fails for the
  component named \<open>Card\<close>: its key is \<open>card\<close>.
\<close>

theorem serialized_key_counterexample:
  "serializedComponents demo_env [card_component] =
     Inr (lit ''\"card\": {\"name\":\"Card\",\"style\":\"\",\"script\":\"\",\"html\":\"<p>Hi</p>\"}'')
   \<and> spec_serializedComponents demo_env [card_component] =
     lit ''\"Card\": {\"name\":\"Card\",\"style\":\"\",\"script\":\"\",\"html\":\"<p>Hi</p>\"}''
   \<and> serializedComponents demo_env [card_component]
       \<noteq> Inr (spec_serializedComponents demo_env [card_component])"
  by (simp add: serializedComponents_def spec_serializedComponents_def entry_def name_of_def
      demo_env_def demo_stringify_def json_quote_def ascii_toLowerCase_def card_component_def
      lit_def)

section \<open>The assembled script\<close>

text \<open>
  A replacement text without a dollar sign is inserted as it is, and then the assembled
  script is the template with the placeholder replaced.
\<close>

lemma get_substitution_plain:
  "36 \<notin> set r \<Longrightarrow> get_substitution matched preceding following r = r"
  by (induction matched preceding following r rule: get_substitution.induct) auto

lemma fullJsStr_plain:
  "36 \<notin> set serialized \<Longrightarrow> fullJsStr template serialized = spec_fullJsStr template serialized"
  by (simp add: fullJsStr_def spec_fullJsStr_def String_replace_def get_substitution_plain
      split: option.splits)

text \<open>
  Claim C6 says that the assembled script is the template with the placeholder replaced
  by the serialized components. The source passes the serialized components as the
  replacement text of \<open>String.prototype.replace\<close>, which expands dollar patterns in it: a
  component whose markup is \<open><p>$$x$$</p>\<close> is assembled with \<open><p>$x$</p>\<close>. (The second
  half of the claim holds: the script written is the minification of the assembled one.)
\<close>

theorem dollar_patterns_expanded:
  "fullJsStr (lit ''var c={/*${CANVAS_COMPONENTS}*/};'')
     (lit ''\"m\": {\"name\":\"m\",\"style\":\"\",\"script\":\"\",\"html\":\"<p>$$x$$</p>\"}'')
     = lit ''var c={\"m\": {\"name\":\"m\",\"style\":\"\",\"script\":\"\",\"html\":\"<p>$x$</p>\"}};''
   \<and> spec_fullJsStr (lit ''var c={/*${CANVAS_COMPONENTS}*/};'')
     (lit ''\"m\": {\"name\":\"m\",\"style\":\"\",\"script\":\"\",\"html\":\"<p>$$x$$</p>\"}'')
     = lit ''var c={\"m\": {\"name\":\"m\",\"style\":\"\",\"script\":\"\",\"html\":\"<p>$$x$$</p>\"}};''"
  by (simp add: fullJsStr_def spec_fullJsStr_def String_replace_def placeholder_def lit_def)

section \<open>The artifacts of the build\<close>

lemma build_success:
  assumes "snd (build E) = None"
  shows "\<exists>full uri. assemble E = Inr full \<and> error (JS_minify E full) = None
           \<and> createBookmarklet E (code (JS_minify E full)) = Inr uri
           \<and> fst (build E) =
               [Mkdir (distDirectory E),
                WriteFile (path_join E (distDirectory E) (lit ''bookmarklet'')) uri,
                WriteFile (path_join E (distDirectory E) (lit ''bookmarklet.html''))
                  (bookmarkletHtml uri),
                WriteFile (path_join E (distDirectory E) (lit ''canvascomponents.min.js''))
                  (code (JS_minify E full))]"
  using assms
  by (auto simp: build_def Let_def split: sum.splits option.splits)

text \<open>
  Claim C8. If the minification of the assembled script fails, the build ends with that
  error, and the only file-system call made is the creation of the output directory:
  none of the three files is written.
\<close>

theorem minify_failure_writes_nothing:
  assumes "assemble E = Inr full" and "error (JS_minify E full) = Some e"
  shows "build E = ([Mkdir (distDirectory E)], Some e)"
  using assms by (simp add: build_def Let_def)

theorem minify_failure_writes_nothing_witness:
  "assemble rejecting_env =
     Inr (lit ''var c={\"card\": {\"name\":\"Card\",\"style\":\"\",\"script\":\"\",\"html\":\"<p>Hi</p>\"}};'')
   \<and> error (JS_minify rejecting_env
        (lit ''var c={\"card\": {\"name\":\"Card\",\"style\":\"\",\"script\":\"\",\"html\":\"<p>Hi</p>\"}};''))
       = Some (Thrown (lit ''SyntaxError''))
   \<and> build rejecting_env = ([Mkdir (lit ''/repo/dist/'')], Some (Thrown (lit ''SyntaxError'')))"
proof -
  have e: "error (JS_minify rejecting_env
        (lit ''var c={\"card\": {\"name\":\"Card\",\"style\":\"\",\"script\":\"\",\"html\":\"<p>Hi</p>\"}};''))
       = Some (Thrown (lit ''SyntaxError''))"
    by (simp add: rejecting_env_def lit_def)
  have d: "distDirectory rejecting_env = lit ''/repo/dist/''"
    by (simp add: distDirectory_def rejecting_env_def demo_env_def demo_join_def lit_def)
  from minify_failure_writes_nothing [OF assemble_rejecting e] assemble_rejecting e d
  show ?thesis by simp
qed



text \<open>
  Claim C4. In a build that ends without an error, the text written to \<open>bookmarklet\<close> is
  \<open>encodeURI\<close> of \<open>javascript:!function(){\<close>, the minified assembled script and \<open>}()\<close>.
\<close>

theorem bookmarklet_is_encoded_iife:
  assumes "snd (build E) = None"
  shows "\<exists>full uri.
           assemble E = Inr full
         \<and> encodeURI E (lit ''javascript:!function(){'' @ code (JS_minify E full) @ lit ''}()'')
             = Inr uri
         \<and> WriteFile (path_join E (distDirectory E) (lit ''bookmarklet'')) uri \<in> set (fst (build E))"
proof -
  from build_success [OF assms] obtain full uri where
    a: "assemble E = Inr full" and c: "createBookmarklet E (code (JS_minify E full)) = Inr uri"
    and f: "fst (build E) =
               [Mkdir (distDirectory E),
                WriteFile (path_join E (distDirectory E) (lit ''bookmarklet'')) uri,
                WriteFile (path_join E (distDirectory E) (lit ''bookmarklet.html''))
                  (bookmarkletHtml uri),
                WriteFile (path_join E (distDirectory E) (lit ''canvascomponents.min.js''))
                  (code (JS_minify E full))]"
    by blast
  from c have "encodeURI E (lit ''javascript:!function(){'' @ code (JS_minify E full) @ lit ''}()'')
             = Inr uri"
    by (simp add: createBookmarklet_def)
  with a f show ?thesis by auto
qed

theorem bookmarklet_is_encoded_iife_witness:
  "snd (build demo_env) = None
   \<and> (\<exists>full uri.
           assemble demo_env = Inr full
         \<and> encodeURI demo_env (lit ''javascript:!function(){'' @ code (JS_minify demo_env full) @ lit ''}()'')
             = Inr uri
         \<and> WriteFile (path_join demo_env (distDirectory demo_env) (lit ''bookmarklet'')) uri
             \<in> set (fst (build demo_env)))"
  using bookmarklet_is_encoded_iife [OF build_demo_ok] build_demo_ok by simp

end
